theory Spec2Isabelle
  imports Main
begin

section \<open>Template semantics checker of the Angular compiler-cli\<close>

text \<open>
  A shallow embedding of
  \<^verbatim>\<open>packages/compiler-cli/src/ngtsc/typecheck/template_semantics/src/template_semantics_checker.ts\<close>
  and of
  \<^verbatim>\<open>packages/compiler-cli/src/ngtsc/validation/src/rules/deprecated_usages_rule.ts\<close>.

  The checker pushes diagnostics onto one array shared by its visitors. Here the array is
  passed explicitly: every visiting function takes the diagnostics pushed so far and
  returns them with what it pushed itself. JavaScript \<^verbatim>\<open>null\<close> is \<open>None\<close>.
\<close>

subsection \<open>Spans, declarations and expressions\<close>

text \<open>
  Modelled from the spec: the classes of \<^verbatim>\<open>@angular/compiler\<close> and of \<^verbatim>\<open>typescript\<close>
  that the checker imports; their declarations are outside the two files. Each is a record
  of the fields the checker reads. As in the spec's data model, a node carries a source
  span with its start offset, its end offset and the owning file: a \<^verbatim>\<open>ParseSourceSpan\<close>
  starts and ends at a \<^verbatim>\<open>ParseLocation\<close>, which names its file and carries the offset.
\<close>

type_synonym source_file = string

record parse_location =
  loc_file :: source_file
  loc_offset :: nat

record parse_source_span =
  span_start :: parse_location
  span_end :: parse_location

text \<open>
  \<^verbatim>\<open>TmplAstVariable\<close> has an optional \<^verbatim>\<open>valueSpan\<close>. \<^verbatim>\<open>TmplAstLetDeclaration\<close> has a
  \<^verbatim>\<open>valueSpan\<close> too (the span of the initialiser of \<^verbatim>\<open>@let name = value;\<close>); the checker
  never reads it.
\<close>

record tmpl_ast_variable =
  var_name :: string
  var_sourceSpan :: parse_source_span
  var_valueSpan :: "parse_source_span option"

record tmpl_ast_let_declaration =
  let_name :: string
  let_sourceSpan :: parse_source_span
  let_valueSpan :: "parse_source_span option"

record tmpl_ast_reference =
  ref_name :: string
  ref_sourceSpan :: parse_source_span

text \<open>
  What \<^verbatim>\<open>getExpressionTarget\<close> returns when it is not \<^verbatim>\<open>null\<close>; the constructor is the
  class that \<^verbatim>\<open>instanceof\<close> tests.
\<close>

datatype template_entity =
    TmplAstVariable tmpl_ast_variable
  | TmplAstLetDeclaration tmpl_ast_let_declaration
  | TmplAstReference tmpl_ast_reference

fun entity_name :: "template_entity \<Rightarrow> string" where
  "entity_name (TmplAstVariable v) = var_name v"
| "entity_name (TmplAstLetDeclaration l) = let_name l"
| "entity_name (TmplAstReference r) = ref_name r"

fun entity_sourceSpan :: "template_entity \<Rightarrow> parse_source_span" where
  "entity_sourceSpan (TmplAstVariable v) = var_sourceSpan v"
| "entity_sourceSpan (TmplAstLetDeclaration l) = let_sourceSpan l"
| "entity_sourceSpan (TmplAstReference r) = ref_sourceSpan r"

text \<open>
  Expression nodes. Rule B compares two nodes with \<^verbatim>\<open>!==\<close>, which is identity of
  objects, so every node carries the identity of its object (its first argument), and
  \<^verbatim>\<open>!==\<close> compares identities. A constructor stands for every object that passes the
  \<^verbatim>\<open>instanceof\<close> test of its class, objects of a subclass included.

  Modelled from the spec: the expression classes other than the four the checker names are
  one constructor \<open>OtherAST\<close>, with the operands its default traversal hands to
  \<^verbatim>\<open>visit\<close> one by one (the operands of a binary operator, the receiver of a call) and then
  the operands it hands to \<^verbatim>\<open>visitAll\<close> (the arguments of a call, the entries of a
  literal array), as the spec has it: "children visited only through explicit recursive
  calls that a concrete node's default traversal performs".
\<close>

type_synonym object_id = nat

datatype ast =
    ImplicitReceiver object_id
  | PropertyRead object_id ast string
  | PropertyWrite object_id ast string ast
  | ASTWithSource object_id ast
  | OtherAST object_id "ast list" "ast list"

fun oid :: "ast \<Rightarrow> object_id" where
  "oid (ImplicitReceiver i) = i"
| "oid (PropertyRead i rcv n) = i"
| "oid (PropertyWrite i rcv n v) = i"
| "oid (ASTWithSource i a) = i"
| "oid (OtherAST i singles many) = i"

datatype ParsedEventType = Regular | Animation | TwoWay

record tmpl_ast_bound_attribute =
  attr_name :: string
  attr_value :: ast

record tmpl_ast_bound_event =
  event_name :: string
  event_type :: ParsedEventType
  handler :: ast
  handlerSpan :: parse_source_span

text \<open>
  Modelled from the spec: the nodes of the template tree and the default traversal of
  \<^verbatim>\<open>TmplAstRecursiveVisitor\<close>. A container (element, template, block) holds the nodes the
  default traversal descends into, in its order; a leaf (text, reference, variable,
  declaration) is a node whose default visit does nothing.
\<close>

datatype tmpl_ast_node =
    TmplAstBoundAttribute tmpl_ast_bound_attribute
  | TmplAstBoundEvent tmpl_ast_bound_event
  | TmplAstContainer "tmpl_ast_node list"
  | TmplAstLeaf

subsection \<open>The services the checker is given\<close>

record class_declaration =
  class_name :: string
  getSourceFile :: source_file

datatype DiagnosticCategory =
  CategoryWarning | CategoryError | CategorySuggestion | CategoryMessage

datatype ErrorCode = WRITE_TO_READ_ONLY_VARIABLE | OtherErrorCode nat

record related_message =
  rel_text :: string
  rel_start :: nat
  rel_end :: nat
  rel_sourceFile :: source_file

text \<open>
  The methods of \<^verbatim>\<open>TemplateTypeChecker\<close> that the checker calls. \<open>'s\<close> is the type of
  symbols, \<open>'d\<close> of the diagnostics that \<^verbatim>\<open>makeTemplateDiagnostic\<close> builds.
\<close>

record ('s, 'd) template_type_checker =
  getTemplate :: "class_declaration \<Rightarrow> tmpl_ast_node list option"
  getExpressionTarget :: "ast \<Rightarrow> class_declaration \<Rightarrow> template_entity option"
  getSymbolOfNode :: "template_entity \<Rightarrow> class_declaration \<Rightarrow> 's option"
  makeTemplateDiagnostic ::
    "class_declaration \<Rightarrow> parse_source_span \<Rightarrow> DiagnosticCategory \<Rightarrow> int \<Rightarrow> string \<Rightarrow>
     related_message list \<Rightarrow> 'd"

text \<open>
  The functions imported from \<^verbatim>\<open>../../src/symbol_util\<close> and \<^verbatim>\<open>../../../diagnostics\<close>.
\<close>

record 's imported =
  isSignalReference :: "'s \<Rightarrow> bool"
  ngErrorCode :: "ErrorCode \<Rightarrow> int"

subsection \<open>ExpressionsSemanticsVisitor\<close>

text \<open>
  No statement of this class throws: every property the two checks read belongs to an
  object whose class \<^verbatim>\<open>instanceof\<close> has tested before, and the type checker answers
  \<^verbatim>\<open>null\<close> where it has no answer. So the functions below return the diagnostics and
  have no error result.
\<close>

definition apostrophe :: string where
  "apostrophe = [CHR 0x27]"

fun unwrapAstWithSource :: "ast \<Rightarrow> ast" where
  "unwrapAstWithSource (ASTWithSource i a) = a"
| "unwrapAstWithSource a = a"

definition makeIllegalTemplateVarDiagnostic ::
  "'s imported \<Rightarrow> ('s, 'd) template_type_checker \<Rightarrow> class_declaration \<Rightarrow>
   template_entity \<Rightarrow> tmpl_ast_bound_event \<Rightarrow> string \<Rightarrow> 'd" where
  "makeIllegalTemplateVarDiagnostic I tc component target expressionNode errorMessage =
     (let span =
        (case target of
           TmplAstVariable v \<Rightarrow>
             (case var_valueSpan v of Some s \<Rightarrow> s | None \<Rightarrow> var_sourceSpan v)
         | _ \<Rightarrow> entity_sourceSpan target)
      in makeTemplateDiagnostic tc component (handlerSpan expressionNode) CategoryError
           (ngErrorCode I WRITE_TO_READ_ONLY_VARIABLE) errorMessage
           [\<lparr>rel_text = apostrophe @ entity_name target @ apostrophe @ '' is declared here.'',
             rel_start = loc_offset (span_start span),
             rel_end = loc_offset (span_end span),
             rel_sourceFile = getSourceFile component\<rparr>])"

text \<open>The three template literals of the messages, for a target named \<open>n\<close>.\<close>

definition write_message :: "string \<Rightarrow> string" where
  "write_message n =
     ''Cannot use variable '' @ apostrophe @ n @ apostrophe @
     '' as the left-hand side of an assignment expression. Template variables are read-only.''"

definition two_way_variable_message :: "string \<Rightarrow> string" where
  "two_way_variable_message n =
     ''Cannot use a non-signal variable '' @ apostrophe @ n @ apostrophe @
     '' in a two-way binding expression. Template variables are read-only.''"

definition two_way_let_message :: "string \<Rightarrow> string" where
  "two_way_let_message n =
     ''Cannot use non-signal @let declaration '' @ apostrophe @ n @ apostrophe @
     '' in a two-way binding expression. @let declarations are read-only.''"

fun checkForIllegalWriteInEventBinding ::
  "'s imported \<Rightarrow> ('s, 'd) template_type_checker \<Rightarrow> class_declaration \<Rightarrow>
   ast \<Rightarrow> tmpl_ast_node \<Rightarrow> 'd list \<Rightarrow> 'd list" where
  "checkForIllegalWriteInEventBinding I tc component
     (PropertyWrite i (ImplicitReceiver r) n v) (TmplAstBoundEvent context) diagnostics =
     (case getExpressionTarget tc (PropertyWrite i (ImplicitReceiver r) n v) component of
        Some (TmplAstVariable target) \<Rightarrow>
          diagnostics @
          [makeIllegalTemplateVarDiagnostic I tc component (TmplAstVariable target) context
             (write_message (var_name target))]
      | _ \<Rightarrow> diagnostics)"
| "checkForIllegalWriteInEventBinding I tc component a context diagnostics = diagnostics"

fun checkForIllegalWriteInTwoWayBinding ::
  "'s imported \<Rightarrow> ('s, 'd) template_type_checker \<Rightarrow> class_declaration \<Rightarrow>
   ast \<Rightarrow> tmpl_ast_node \<Rightarrow> 'd list \<Rightarrow> 'd list" where
  "checkForIllegalWriteInTwoWayBinding I tc component
     (PropertyRead i (ImplicitReceiver r) n) (TmplAstBoundEvent context) diagnostics =
     (if event_type context \<noteq> TwoWay \<or>
         oid (PropertyRead i (ImplicitReceiver r) n) \<noteq> oid (unwrapAstWithSource (handler context))
      then diagnostics
      else
        (case getExpressionTarget tc (PropertyRead i (ImplicitReceiver r) n) component of
           Some (TmplAstVariable target) \<Rightarrow>
             (case getSymbolOfNode tc (TmplAstVariable target) component of
                Some symbol \<Rightarrow>
                  if \<not> isSignalReference I symbol then
                    diagnostics @
                    [makeIllegalTemplateVarDiagnostic I tc component (TmplAstVariable target)
                       context (two_way_variable_message (var_name target))]
                  else diagnostics
              | None \<Rightarrow> diagnostics)
         | Some (TmplAstLetDeclaration target) \<Rightarrow>
             (case getSymbolOfNode tc (TmplAstLetDeclaration target) component of
                Some symbol \<Rightarrow>
                  if \<not> isSignalReference I symbol then
                    diagnostics @
                    [makeIllegalTemplateVarDiagnostic I tc component
                       (TmplAstLetDeclaration target) context
                       (two_way_let_message (let_name target))]
                  else diagnostics
              | None \<Rightarrow> diagnostics)
         | _ \<Rightarrow> diagnostics))"
| "checkForIllegalWriteInTwoWayBinding I tc component a context diagnostics = diagnostics"

text \<open>
  \<^verbatim>\<open>ast.visit(expressionVisitor, context)\<close>: the node dispatches to the method of its
  class. \<^verbatim>\<open>visitPropertyWrite\<close> and \<^verbatim>\<open>visitPropertyRead\<close> first call the inherited method,
  then run their check.

  Modelled from the spec: the methods inherited from \<^verbatim>\<open>RecursiveAstVisitor\<close>. That of a
  property read visits the receiver, that of a property write the receiver and then the
  written value, an \<^verbatim>\<open>ASTWithSource\<close> hands the visitor to the expression it wraps, an
  implicit receiver has nothing below it, and \<^verbatim>\<open>visitAll\<close> visits a list in order.
\<close>

primrec ExpressionsSemanticsVisitor_visit ::
  "'s imported \<Rightarrow> ('s, 'd) template_type_checker \<Rightarrow> class_declaration \<Rightarrow>
   ast \<Rightarrow> tmpl_ast_node \<Rightarrow> 'd list \<Rightarrow> 'd list"
and ExpressionsSemanticsVisitor_visitAll ::
  "'s imported \<Rightarrow> ('s, 'd) template_type_checker \<Rightarrow> class_declaration \<Rightarrow>
   ast list \<Rightarrow> tmpl_ast_node \<Rightarrow> 'd list \<Rightarrow> 'd list"
where
  "ExpressionsSemanticsVisitor_visit I tc component (ImplicitReceiver i) =
     (\<lambda>context diagnostics. diagnostics)"
| "ExpressionsSemanticsVisitor_visit I tc component (PropertyRead i rcv n) =
     (\<lambda>context diagnostics.
        checkForIllegalWriteInTwoWayBinding I tc component (PropertyRead i rcv n) context
          (ExpressionsSemanticsVisitor_visit I tc component rcv context diagnostics))"
| "ExpressionsSemanticsVisitor_visit I tc component (PropertyWrite i rcv n v) =
     (\<lambda>context diagnostics.
        checkForIllegalWriteInEventBinding I tc component (PropertyWrite i rcv n v) context
          (ExpressionsSemanticsVisitor_visit I tc component v context
             (ExpressionsSemanticsVisitor_visit I tc component rcv context diagnostics)))"
| "ExpressionsSemanticsVisitor_visit I tc component (ASTWithSource i a) =
     (\<lambda>context diagnostics. ExpressionsSemanticsVisitor_visit I tc component a context diagnostics)"
| "ExpressionsSemanticsVisitor_visit I tc component (OtherAST i singles many) =
     (\<lambda>context diagnostics.
        ExpressionsSemanticsVisitor_visitAll I tc component many context
          (ExpressionsSemanticsVisitor_visitAll I tc component singles context diagnostics))"
| "ExpressionsSemanticsVisitor_visitAll I tc component [] =
     (\<lambda>context diagnostics. diagnostics)"
| "ExpressionsSemanticsVisitor_visitAll I tc component (a # asts) =
     (\<lambda>context diagnostics.
        ExpressionsSemanticsVisitor_visitAll I tc component asts context
          (ExpressionsSemanticsVisitor_visit I tc component a context diagnostics))"

subsection \<open>DeprecatedSemanticsVisitor\<close>

text \<open>
  The class overrides \<^verbatim>\<open>visitAll\<close> with a body that holds a \<^verbatim>\<open>debugger\<close> statement
  only; every other method is inherited from \<^verbatim>\<open>RecursiveAstVisitor\<close>.
\<close>

definition DeprecatedSemanticsVisitor_visitAll ::
  "ast list \<Rightarrow> tmpl_ast_node \<Rightarrow> 'd list \<Rightarrow> 'd list" where
  "DeprecatedSemanticsVisitor_visitAll asts context diagnostics = diagnostics"

primrec DeprecatedSemanticsVisitor_visit :: "ast \<Rightarrow> tmpl_ast_node \<Rightarrow> 'd list \<Rightarrow> 'd list"
and DeprecatedSemanticsVisitor_visitEach :: "ast list \<Rightarrow> tmpl_ast_node \<Rightarrow> 'd list \<Rightarrow> 'd list"
where
  "DeprecatedSemanticsVisitor_visit (ImplicitReceiver i) = (\<lambda>context diagnostics. diagnostics)"
| "DeprecatedSemanticsVisitor_visit (PropertyRead i rcv n) =
     (\<lambda>context diagnostics. DeprecatedSemanticsVisitor_visit rcv context diagnostics)"
| "DeprecatedSemanticsVisitor_visit (PropertyWrite i rcv n v) =
     (\<lambda>context diagnostics.
        DeprecatedSemanticsVisitor_visit v context
          (DeprecatedSemanticsVisitor_visit rcv context diagnostics))"
| "DeprecatedSemanticsVisitor_visit (ASTWithSource i a) =
     (\<lambda>context diagnostics. DeprecatedSemanticsVisitor_visit a context diagnostics)"
| "DeprecatedSemanticsVisitor_visit (OtherAST i singles many) =
     (\<lambda>context diagnostics.
        DeprecatedSemanticsVisitor_visitAll many context
          (DeprecatedSemanticsVisitor_visitEach singles context diagnostics))"
| "DeprecatedSemanticsVisitor_visitEach [] = (\<lambda>context diagnostics. diagnostics)"
| "DeprecatedSemanticsVisitor_visitEach (a # asts) =
     (\<lambda>context diagnostics.
        DeprecatedSemanticsVisitor_visitEach asts context
          (DeprecatedSemanticsVisitor_visit a context diagnostics))"

subsection \<open>TemplateSemanticsVisitor and the facade\<close>

definition visitBoundAttribute :: "tmpl_ast_bound_attribute \<Rightarrow> 'd list \<Rightarrow> 'd list" where
  "visitBoundAttribute attribute diagnostics =
     DeprecatedSemanticsVisitor_visit (attr_value attribute) (TmplAstBoundAttribute attribute)
       diagnostics"

definition visitBoundEvent ::
  "'s imported \<Rightarrow> ('s, 'd) template_type_checker \<Rightarrow> class_declaration \<Rightarrow>
   tmpl_ast_bound_event \<Rightarrow> 'd list \<Rightarrow> 'd list" where
  "visitBoundEvent I tc component event diagnostics =
     DeprecatedSemanticsVisitor_visit (handler event) (TmplAstBoundEvent event)
       (ExpressionsSemanticsVisitor_visit I tc component (handler event)
          (TmplAstBoundEvent event) diagnostics)"

text \<open>\<^verbatim>\<open>node.visit(templateVisitor)\<close>, and the visit of a sequence of nodes in order.\<close>

primrec TemplateSemanticsVisitor_visitNode ::
  "'s imported \<Rightarrow> ('s, 'd) template_type_checker \<Rightarrow> class_declaration \<Rightarrow>
   tmpl_ast_node \<Rightarrow> 'd list \<Rightarrow> 'd list"
and TemplateSemanticsVisitor_visitNodes ::
  "'s imported \<Rightarrow> ('s, 'd) template_type_checker \<Rightarrow> class_declaration \<Rightarrow>
   tmpl_ast_node list \<Rightarrow> 'd list \<Rightarrow> 'd list"
where
  "TemplateSemanticsVisitor_visitNode I tc component (TmplAstBoundAttribute attribute) =
     (\<lambda>diagnostics. visitBoundAttribute attribute diagnostics)"
| "TemplateSemanticsVisitor_visitNode I tc component (TmplAstBoundEvent event) =
     (\<lambda>diagnostics. visitBoundEvent I tc component event diagnostics)"
| "TemplateSemanticsVisitor_visitNode I tc component (TmplAstContainer children) =
     (\<lambda>diagnostics. TemplateSemanticsVisitor_visitNodes I tc component children diagnostics)"
| "TemplateSemanticsVisitor_visitNode I tc component TmplAstLeaf = (\<lambda>diagnostics. diagnostics)"
| "TemplateSemanticsVisitor_visitNodes I tc component [] = (\<lambda>diagnostics. diagnostics)"
| "TemplateSemanticsVisitor_visitNodes I tc component (node # nodes) =
     (\<lambda>diagnostics.
        TemplateSemanticsVisitor_visitNodes I tc component nodes
          (TemplateSemanticsVisitor_visitNode I tc component node diagnostics))"

definition TemplateSemanticsVisitor_visit ::
  "'s imported \<Rightarrow> tmpl_ast_node list \<Rightarrow> class_declaration \<Rightarrow>
   ('s, 'd) template_type_checker \<Rightarrow> 'd list" where
  "TemplateSemanticsVisitor_visit I nodes component templateTypeChecker =
     TemplateSemanticsVisitor_visitNodes I templateTypeChecker component nodes []"

definition getDiagnosticsForComponent ::
  "'s imported \<Rightarrow> ('s, 'd) template_type_checker \<Rightarrow> class_declaration \<Rightarrow> 'd list" where
  "getDiagnosticsForComponent I templateTypeChecker component =
     (case getTemplate templateTypeChecker component of
        Some template \<Rightarrow> TemplateSemanticsVisitor_visit I template component templateTypeChecker
      | None \<Rightarrow> [])"

subsection \<open>DeprecatedUsagesRule\<close>

text \<open>
  \<^verbatim>\<open>throw Error('not implemented')\<close> is the result \<open>Inl (Error ''not implemented'')\<close>; a
  returned \<^verbatim>\<open>Diagnostic | Diagnostic[] | null\<close> would be an \<open>Inr\<close>.
\<close>

datatype js_error = Error string

datatype 'd check_result = OneDiagnostic 'd | ManyDiagnostics "'d list" | NoDiagnostic

record ('t, 'c, 'i) DeprecatedUsagesRule =
  rule_templateTypeChecker :: 't
  rule_typeCheckingConfig :: 'c
  rule_importedSymbolsTracker :: 'i

definition checkNode ::
  "('t, 'c, 'i) DeprecatedUsagesRule \<Rightarrow> 'n \<Rightarrow> js_error + 'd check_result" where
  "checkNode rule node = Inl (Error ''not implemented'')"

subsection \<open>Notions used to state the properties\<close>

text \<open>
  The nodes strictly below an expression node, in the order of the traversal, and the
  condition that the objects of an expression tree are pairwise distinct (the tree shares
  no node).
\<close>

primrec descendants :: "ast \<Rightarrow> ast list"
and descendants_list :: "ast list \<Rightarrow> ast list" where
  "descendants (ImplicitReceiver i) = []"
| "descendants (PropertyRead i rcv n) = rcv # descendants rcv"
| "descendants (PropertyWrite i rcv n v) = rcv # descendants rcv @ v # descendants v"
| "descendants (ASTWithSource i a) = a # descendants a"
| "descendants (OtherAST i singles many) = descendants_list singles @ descendants_list many"
| "descendants_list [] = []"
| "descendants_list (a # asts) = a # descendants a @ descendants_list asts"

definition distinct_objects :: "ast \<Rightarrow> bool" where
  "distinct_objects a = distinct (map oid (a # descendants a))"

text \<open>The bound events of a template, in the order the walker reaches them.\<close>

primrec boundEvents :: "tmpl_ast_node \<Rightarrow> tmpl_ast_bound_event list"
and boundEvents_list :: "tmpl_ast_node list \<Rightarrow> tmpl_ast_bound_event list" where
  "boundEvents (TmplAstBoundAttribute attribute) = []"
| "boundEvents (TmplAstBoundEvent event) = [event]"
| "boundEvents (TmplAstContainer children) = boundEvents_list children"
| "boundEvents TmplAstLeaf = []"
| "boundEvents_list [] = []"
| "boundEvents_list (node # nodes) = boundEvents node @ boundEvents_list nodes"

text \<open>
  What a fresh expression semantics visitor pushes for the handler of one bound event.
\<close>

definition handler_diagnostics ::
  "'s imported \<Rightarrow> ('s, 'd) template_type_checker \<Rightarrow> class_declaration \<Rightarrow>
   tmpl_ast_bound_event \<Rightarrow> 'd list" where
  "handler_diagnostics I tc component event =
     ExpressionsSemanticsVisitor_visit I tc component (handler event) (TmplAstBoundEvent event) []"

text \<open>
  The span of the secondary annotation, in words: for a variable its value span when it
  has one and its declaration span otherwise; for any other declaration its declaration
  span.
\<close>

fun declaration_span :: "template_entity \<Rightarrow> parse_source_span" where
  "declaration_span (TmplAstVariable v) =
     (case var_valueSpan v of Some s \<Rightarrow> s | None \<Rightarrow> var_sourceSpan v)"
| "declaration_span (TmplAstLetDeclaration l) = let_sourceSpan l"
| "declaration_span (TmplAstReference r) = ref_sourceSpan r"

text \<open>The messages of Rule A and Rule B about a declaration.\<close>

fun rule_messages :: "template_entity \<Rightarrow> string list" where
  "rule_messages (TmplAstVariable v) =
     [write_message (var_name v), two_way_variable_message (var_name v)]"
| "rule_messages (TmplAstLetDeclaration l) = [two_way_let_message (let_name l)]"
| "rule_messages (TmplAstReference r) = []"

text \<open>
  Two type checkers answer alike for a component: the behaviour of the resolution service
  that a run of the checker on this component can observe.
\<close>

definition same_answers ::
  "('s, 'd) template_type_checker \<Rightarrow> ('s, 'd) template_type_checker \<Rightarrow> class_declaration \<Rightarrow> bool"
  where
  "same_answers tc tc' component \<longleftrightarrow>
     getTemplate tc component = getTemplate tc' component \<and>
     (\<forall>a. getExpressionTarget tc a component = getExpressionTarget tc' a component) \<and>
     (\<forall>t. getSymbolOfNode tc t component = getSymbolOfNode tc' t component) \<and>
     makeTemplateDiagnostic tc component = makeTemplateDiagnostic tc' component"

subsection \<open>A sample component\<close>

text \<open>
  Modelled from the spec: a diagnostic that keeps what the diagnostic factory was given
  (severity, code, message, primary span, the ordered secondary annotations).
\<close>

record template_diagnostic =
  diag_component :: class_declaration
  diag_span :: parse_source_span
  diag_category :: DiagnosticCategory
  diag_code :: int
  diag_messageText :: string
  diag_relatedInformation :: "related_message list"

definition recordDiagnostic ::
  "class_declaration \<Rightarrow> parse_source_span \<Rightarrow> DiagnosticCategory \<Rightarrow> int \<Rightarrow> string \<Rightarrow>
   related_message list \<Rightarrow> template_diagnostic" where
  "recordDiagnostic component span category code messageText relatedMessages =
     \<lparr>diag_component = component, diag_span = span, diag_category = category,
      diag_code = code, diag_messageText = messageText,
      diag_relatedInformation = relatedMessages\<rparr>"

definition span_in :: "source_file \<Rightarrow> nat \<Rightarrow> nat \<Rightarrow> parse_source_span" where
  "span_in f a b =
     \<lparr>span_start = \<lparr>loc_file = f, loc_offset = a\<rparr>, span_end = \<lparr>loc_file = f, loc_offset = b\<rparr>\<rparr>"

text \<open>
  A component in \<^verbatim>\<open>app.ts\<close> whose template is the external file \<^verbatim>\<open>app.html\<close>. The
  template declares the loop variable \<open>item\<close>, the variable \<open>count\<close> that holds a
  signal, the variable \<open>orphan\<close> for which the type checker has no symbol, and
  \<^verbatim>\<open>@let total = 1;\<close>.
\<close>

definition app_component :: class_declaration where
  "app_component = \<lparr>class_name = ''App'', getSourceFile = ''app.ts''\<rparr>"

definition item_variable :: tmpl_ast_variable where
  "item_variable =
     \<lparr>var_name = ''item'', var_sourceSpan = span_in ''app.html'' 12 31, var_valueSpan = None\<rparr>"

definition count_variable :: tmpl_ast_variable where
  "count_variable =
     \<lparr>var_name = ''count'', var_sourceSpan = span_in ''app.html'' 33 44,
      var_valueSpan = Some (span_in ''app.html'' 39 44)\<rparr>"

definition orphan_variable :: tmpl_ast_variable where
  "orphan_variable =
     \<lparr>var_name = ''orphan'', var_sourceSpan = span_in ''app.html'' 46 52, var_valueSpan = None\<rparr>"

definition total_declaration :: tmpl_ast_let_declaration where
  "total_declaration =
     \<lparr>let_name = ''total'', let_sourceSpan = span_in ''app.html'' 60 75,
      let_valueSpan = Some (span_in ''app.html'' 73 74)\<rparr>"

definition resolve_name :: "string \<Rightarrow> template_entity option" where
  "resolve_name n =
     (if n = ''item'' then Some (TmplAstVariable item_variable)
      else if n = ''count'' then Some (TmplAstVariable count_variable)
      else if n = ''orphan'' then Some (TmplAstVariable orphan_variable)
      else if n = ''total'' then Some (TmplAstLetDeclaration total_declaration)
      else None)"

fun sample_target :: "ast \<Rightarrow> class_declaration \<Rightarrow> template_entity option" where
  "sample_target (PropertyRead i (ImplicitReceiver r) n) component = resolve_name n"
| "sample_target (PropertyWrite i (ImplicitReceiver r) n v) component = resolve_name n"
| "sample_target a component = None"

definition sample_symbol :: "template_entity \<Rightarrow> class_declaration \<Rightarrow> bool option" where
  "sample_symbol t component =
     (if entity_name t = ''orphan'' then None else Some (entity_name t = ''count''))"

text \<open>\<open>(click)="item = 1"\<close>\<close>

definition item_write :: ast where
  "item_write = PropertyWrite 11 (ImplicitReceiver 12) ''item'' (OtherAST 13 [] [])"

definition click_event :: tmpl_ast_bound_event where
  "click_event =
     \<lparr>event_name = ''click'', event_type = Regular, handler = ASTWithSource 10 item_write,
      handlerSpan = span_in ''app.html'' 90 98\<rparr>"

text \<open>\<open>[(ngModel)]="total"\<close>, \<open>[(ngModel)]="item"\<close>, \<open>[(ngModel)]="count"\<close>, \<open>[(ngModel)]="orphan"\<close>\<close>

definition two_way_event :: "object_id \<Rightarrow> string \<Rightarrow> tmpl_ast_bound_event" where
  "two_way_event i n =
     \<lparr>event_name = ''ngModelChange'', event_type = TwoWay,
      handler = ASTWithSource i (PropertyRead (i + 1) (ImplicitReceiver (i + 2)) n),
      handlerSpan = span_in ''app.html'' (100 + i) (100 + i + length n)\<rparr>"

text \<open>\<open>[(ngModel)]="item.name"\<close>\<close>

definition item_read :: ast where
  "item_read = PropertyRead 32 (ImplicitReceiver 33) ''item''"

definition nested_event :: tmpl_ast_bound_event where
  "nested_event =
     \<lparr>event_name = ''ngModelChange'', event_type = TwoWay,
      handler = ASTWithSource 30 (PropertyRead 31 item_read ''name''),
      handlerSpan = span_in ''app.html'' 130 139\<rparr>"

definition app_template :: "tmpl_ast_node list" where
  "app_template =
     [TmplAstContainer
        [TmplAstBoundAttribute \<lparr>attr_name = ''title'', attr_value = ASTWithSource 40 item_write\<rparr>,
         TmplAstBoundEvent click_event],
      TmplAstLeaf,
      TmplAstBoundEvent (two_way_event 20 ''total'')]"

definition sample_ngErrorCode :: "ErrorCode \<Rightarrow> int" where
  "sample_ngErrorCode code =
     (case code of WRITE_TO_READ_ONLY_VARIABLE \<Rightarrow> - 998005 | OtherErrorCode k \<Rightarrow> - int k)"

definition sample_imported :: "bool imported" where
  "sample_imported = \<lparr>isSignalReference = (\<lambda>symbol. symbol), ngErrorCode = sample_ngErrorCode\<rparr>"

definition sample_checker :: "(bool, template_diagnostic) template_type_checker" where
  "sample_checker =
     \<lparr>getTemplate = (\<lambda>component. if class_name component = ''App'' then Some app_template else None),
      getExpressionTarget = sample_target,
      getSymbolOfNode = sample_symbol,
      makeTemplateDiagnostic = recordDiagnostic\<rparr>"

text \<open>A type checker that answers as \<open>sample_checker\<close> for \<open>App\<close> and differently elsewhere.\<close>

definition other_checker :: "(bool, template_diagnostic) template_type_checker" where
  "other_checker =
     \<lparr>getTemplate = (\<lambda>component. if class_name component = ''App'' then Some app_template else Some []),
      getExpressionTarget = sample_target,
      getSymbolOfNode = sample_symbol,
      makeTemplateDiagnostic = recordDiagnostic\<rparr>"

text \<open>The files and offsets of the secondary annotations of a list of diagnostics.\<close>

definition annotation_files :: "template_diagnostic list \<Rightarrow> source_file list" where
  "annotation_files ds = map rel_sourceFile (concat (map diag_relatedInformation ds))"

definition annotation_starts :: "template_diagnostic list \<Rightarrow> nat list" where
  "annotation_starts ds = map rel_start (concat (map diag_relatedInformation ds))"

definition annotation_ends :: "template_diagnostic list \<Rightarrow> nat list" where
  "annotation_ends ds = map rel_end (concat (map diag_relatedInformation ds))"

definition other_component :: class_declaration where
  "other_component = \<lparr>class_name = ''Other'', getSourceFile = ''other.ts''\<rparr>"

section \<open>Properties\<close>

subsection \<open>How the visitors push\<close>

lemma deprecated_visit_pushes_nothing:
  "DeprecatedSemanticsVisitor_visit a context diagnostics = diagnostics"
  "DeprecatedSemanticsVisitor_visitEach asts context diagnostics = diagnostics"
  by (induct a and asts arbitrary: diagnostics and diagnostics
        rule: DeprecatedSemanticsVisitor_visit.induct DeprecatedSemanticsVisitor_visitEach.induct)
     (simp_all add: DeprecatedSemanticsVisitor_visitAll_def)

lemma event_check_appends:
  "checkForIllegalWriteInEventBinding I tc c a ctx ds =
   ds @ checkForIllegalWriteInEventBinding I tc c a ctx []"
  by (cases "(I, tc, c, a, ctx, ds)" rule: checkForIllegalWriteInEventBinding.cases)
     (auto split: option.splits template_entity.splits)

lemma two_way_check_appends:
  "checkForIllegalWriteInTwoWayBinding I tc c a ctx ds =
   ds @ checkForIllegalWriteInTwoWayBinding I tc c a ctx []"
  by (cases "(I, tc, c, a, ctx, ds)" rule: checkForIllegalWriteInTwoWayBinding.cases)
     (auto split: option.splits template_entity.splits)

lemma expression_visit_appends:
  "ExpressionsSemanticsVisitor_visit I tc c a ctx ds =
   ds @ ExpressionsSemanticsVisitor_visit I tc c a ctx []"
  "ExpressionsSemanticsVisitor_visitAll I tc c asts ctx ds =
   ds @ ExpressionsSemanticsVisitor_visitAll I tc c asts ctx []"
proof (induct a and asts arbitrary: ds and ds
    rule: ExpressionsSemanticsVisitor_visit.induct ExpressionsSemanticsVisitor_visitAll.induct)
  case (PropertyRead i rcv n)
  show ?case
    using PropertyRead [of ds]
      two_way_check_appends [of I tc c "PropertyRead i rcv n" ctx
        "ExpressionsSemanticsVisitor_visit I tc c rcv ctx ds"]
      two_way_check_appends [of I tc c "PropertyRead i rcv n" ctx
        "ExpressionsSemanticsVisitor_visit I tc c rcv ctx []"]
    by simp
next
  case (PropertyWrite i rcv n v)
  show ?case
    using PropertyWrite(1) [of ds]
      PropertyWrite(2) [of "ExpressionsSemanticsVisitor_visit I tc c rcv ctx ds"]
      PropertyWrite(2) [of "ExpressionsSemanticsVisitor_visit I tc c rcv ctx []"]
      event_check_appends [of I tc c "PropertyWrite i rcv n v" ctx
        "ExpressionsSemanticsVisitor_visit I tc c v ctx
           (ExpressionsSemanticsVisitor_visit I tc c rcv ctx ds)"]
      event_check_appends [of I tc c "PropertyWrite i rcv n v" ctx
        "ExpressionsSemanticsVisitor_visit I tc c v ctx
           (ExpressionsSemanticsVisitor_visit I tc c rcv ctx [])"]
    by simp
next
  case (OtherAST i singles many)
  show ?case
    using OtherAST(1) [of ds]
      OtherAST(2) [of "ExpressionsSemanticsVisitor_visitAll I tc c singles ctx ds"]
      OtherAST(2) [of "ExpressionsSemanticsVisitor_visitAll I tc c singles ctx []"]
    by simp
next
  case (Cons_ast a asts)
  show ?case
    using Cons_ast(2) [of "ExpressionsSemanticsVisitor_visit I tc c a ctx ds"]
      Cons_ast(2) [of "ExpressionsSemanticsVisitor_visit I tc c a ctx []"]
      Cons_ast(1) [of ds]
    by simp
next
  case (ASTWithSource i a)
  show ?case
    using ASTWithSource [of ds] by simp
next
  case (ImplicitReceiver i)
  show ?case by simp
next
  case Nil_ast
  show ?case by simp
qed

lemma event_check_keeps:
  "set ds \<subseteq> set (checkForIllegalWriteInEventBinding I tc c a ctx ds)"
  by (subst event_check_appends) simp

lemma two_way_check_keeps:
  "set ds \<subseteq> set (checkForIllegalWriteInTwoWayBinding I tc c a ctx ds)"
  by (subst two_way_check_appends) simp

lemma expression_visit_keeps:
  "set ds \<subseteq> set (ExpressionsSemanticsVisitor_visit I tc c a ctx ds)"
  by (subst expression_visit_appends(1)) simp

lemma expression_visitAll_keeps:
  "set ds \<subseteq> set (ExpressionsSemanticsVisitor_visitAll I tc c asts ctx ds)"
  by (subst expression_visit_appends(2)) simp

lemma expression_visit_fresh:
  "set (ExpressionsSemanticsVisitor_visit I tc c a ctx []) \<subseteq>
   set (ExpressionsSemanticsVisitor_visit I tc c a ctx ds)"
  by (subst (2) expression_visit_appends(1)) simp

lemma expression_visit_reaches:
  "w \<in> set (descendants a) \<Longrightarrow>
   set (ExpressionsSemanticsVisitor_visit I tc c w ctx []) \<subseteq>
   set (ExpressionsSemanticsVisitor_visit I tc c a ctx ds)"
  "w \<in> set (descendants_list asts) \<Longrightarrow>
   set (ExpressionsSemanticsVisitor_visit I tc c w ctx []) \<subseteq>
   set (ExpressionsSemanticsVisitor_visitAll I tc c asts ctx ds)"
proof (induct a and asts arbitrary: ds and ds
    rule: ExpressionsSemanticsVisitor_visit.induct ExpressionsSemanticsVisitor_visitAll.induct)
  case (ImplicitReceiver i)
  then show ?case by simp
next
  case (PropertyRead i rcv n)
  have "set (ExpressionsSemanticsVisitor_visit I tc c w ctx []) \<subseteq>
      set (ExpressionsSemanticsVisitor_visit I tc c rcv ctx ds)"
    using PropertyRead(1) [of ds] PropertyRead(2) expression_visit_fresh [of I tc c rcv ctx ds]
    by auto
  then show ?case
    using two_way_check_keeps [of "ExpressionsSemanticsVisitor_visit I tc c rcv ctx ds"
        I tc c "PropertyRead i rcv n" ctx]
    by auto
next
  case (PropertyWrite i rcv n v)
  let ?d1 = "ExpressionsSemanticsVisitor_visit I tc c rcv ctx ds"
  from PropertyWrite(3) have "w = rcv \<or> w \<in> set (descendants rcv) \<or> w = v \<or>
      w \<in> set (descendants v)"
    by auto
  then have "set (ExpressionsSemanticsVisitor_visit I tc c w ctx []) \<subseteq>
      set (ExpressionsSemanticsVisitor_visit I tc c v ctx ?d1)"
    using PropertyWrite(1) [of ds] PropertyWrite(2) [of ?d1]
      expression_visit_fresh [of I tc c rcv ctx ds]
      expression_visit_fresh [of I tc c v ctx ?d1]
      expression_visit_keeps [of ?d1 I tc c v ctx]
    by blast
  then show ?case
    using event_check_keeps [of "ExpressionsSemanticsVisitor_visit I tc c v ctx ?d1"
        I tc c "PropertyWrite i rcv n v" ctx]
    by auto
next
  case (ASTWithSource i a)
  then show ?case
    using expression_visit_fresh [of I tc c a ctx ds] by auto
next
  case (OtherAST i singles many)
  let ?d1 = "ExpressionsSemanticsVisitor_visitAll I tc c singles ctx ds"
  from OtherAST(3) have "w \<in> set (descendants_list singles) \<or> w \<in> set (descendants_list many)"
    by auto
  then show ?case
    using OtherAST(1) [of ds] OtherAST(2) [of ?d1]
      expression_visitAll_keeps [of ?d1 I tc c many ctx]
    by auto
next
  case Nil_ast
  then show ?case by simp
next
  case (Cons_ast a asts)
  let ?d1 = "ExpressionsSemanticsVisitor_visit I tc c a ctx ds"
  from Cons_ast(3) have "w = a \<or> w \<in> set (descendants a) \<or> w \<in> set (descendants_list asts)"
    by auto
  then have "set (ExpressionsSemanticsVisitor_visit I tc c w ctx []) \<subseteq>
      set (ExpressionsSemanticsVisitor_visitAll I tc c asts ctx ?d1)"
    using Cons_ast(1) [of ds] Cons_ast(2) [of ?d1]
      expression_visit_fresh [of I tc c a ctx ds]
      expression_visitAll_keeps [of ?d1 I tc c asts ctx]
    by blast
  then show ?case by simp
qed

lemma handler_visit_reaches:
  assumes "w \<in> set (handler event # descendants (handler event))"
  shows "set (ExpressionsSemanticsVisitor_visit I tc c w (TmplAstBoundEvent event) []) \<subseteq>
    set (handler_diagnostics I tc c event)"
  using assms expression_visit_reaches(1) [of w "handler event" I tc c "TmplAstBoundEvent event" "[]"]
  by (auto simp: handler_diagnostics_def)

lemma bound_event_visit:
  "visitBoundEvent I tc c event ds = ds @ handler_diagnostics I tc c event"
  using expression_visit_appends(1) [of I tc c "handler event" "TmplAstBoundEvent event" ds]
  by (simp add: visitBoundEvent_def handler_diagnostics_def deprecated_visit_pushes_nothing)

lemma bound_attribute_visit: "visitBoundAttribute attribute ds = ds"
  by (simp add: visitBoundAttribute_def deprecated_visit_pushes_nothing)

lemma template_visit_events:
  "TemplateSemanticsVisitor_visitNode I tc c node ds =
   ds @ concat (map (handler_diagnostics I tc c) (boundEvents node))"
  "TemplateSemanticsVisitor_visitNodes I tc c nodes ds =
   ds @ concat (map (handler_diagnostics I tc c) (boundEvents_list nodes))"
  by (induct node and nodes arbitrary: ds and ds
        rule: TemplateSemanticsVisitor_visitNode.induct TemplateSemanticsVisitor_visitNodes.induct)
     (simp_all add: bound_event_visit bound_attribute_visit)



lemma make_diagnostic_fields:
  "makeIllegalTemplateVarDiagnostic I tc c target event msg =
   makeTemplateDiagnostic tc c (handlerSpan event) CategoryError
     (ngErrorCode I WRITE_TO_READ_ONLY_VARIABLE) msg
     [\<lparr>rel_text = apostrophe @ entity_name target @ apostrophe @ '' is declared here.'',
       rel_start = loc_offset (span_start (declaration_span target)),
       rel_end = loc_offset (span_end (declaration_span target)),
       rel_sourceFile = getSourceFile c\<rparr>]"
  by (cases target) (simp_all add: makeIllegalTemplateVarDiagnostic_def Let_def)

lemma event_check_origin:
  assumes "d \<in> set (checkForIllegalWriteInEventBinding I tc c a (TmplAstBoundEvent event) ds)"
  shows "d \<in> set ds \<or>
    (\<exists>target msg. msg \<in> set (rule_messages target) \<and>
       d = makeIllegalTemplateVarDiagnostic I tc c target event msg)"
proof (cases "(I, tc, c, a, TmplAstBoundEvent event, ds)"
    rule: checkForIllegalWriteInEventBinding.cases)
  case (1 I' tc' c' i r n v ev ds')
  show ?thesis
  proof (cases "getExpressionTarget tc a c")
    case None
    with 1 assms show ?thesis by simp
  next
    case (Some target)
    show ?thesis
    proof (cases target)
      case (TmplAstVariable t)
      with 1 Some assms have
        "d \<in> set ds \<or> d = makeIllegalTemplateVarDiagnostic I tc c (TmplAstVariable t) event
           (write_message (var_name t))"
        by auto
      moreover have "write_message (var_name t) \<in> set (rule_messages (TmplAstVariable t))"
        by simp
      ultimately show ?thesis by blast
    qed (use 1 Some assms in simp_all)
  qed
qed (use assms in simp_all)

lemma two_way_check_origin:
  assumes "d \<in> set (checkForIllegalWriteInTwoWayBinding I tc c a (TmplAstBoundEvent event) ds)"
  shows "d \<in> set ds \<or>
    (\<exists>target msg. msg \<in> set (rule_messages target) \<and>
       d = makeIllegalTemplateVarDiagnostic I tc c target event msg)"
proof (cases "(I, tc, c, a, TmplAstBoundEvent event, ds)"
    rule: checkForIllegalWriteInTwoWayBinding.cases)
  case (1 I' tc' c' i r n ev ds')
  show ?thesis
  proof (cases "getExpressionTarget tc a c")
    case None
    with 1 assms show ?thesis by (simp split: if_splits)
  next
    case (Some target)
    show ?thesis
    proof (cases target)
      case (TmplAstVariable t)
      with 1 Some assms have
        "d \<in> set ds \<or> d = makeIllegalTemplateVarDiagnostic I tc c (TmplAstVariable t) event
           (two_way_variable_message (var_name t))"
        by (auto split: if_splits option.splits)
      moreover have
        "two_way_variable_message (var_name t) \<in> set (rule_messages (TmplAstVariable t))"
        by simp
      ultimately show ?thesis by blast
    next
      case (TmplAstLetDeclaration l)
      with 1 Some assms have
        "d \<in> set ds \<or> d = makeIllegalTemplateVarDiagnostic I tc c (TmplAstLetDeclaration l) event
           (two_way_let_message (let_name l))"
        by (auto split: if_splits option.splits)
      moreover have
        "two_way_let_message (let_name l) \<in> set (rule_messages (TmplAstLetDeclaration l))"
        by simp
      ultimately show ?thesis by blast
    next
      case (TmplAstReference x)
      with 1 Some assms show ?thesis by (simp split: if_splits)
    qed
  qed
qed (use assms in simp_all)

lemma expression_visit_origin:
  "d \<in> set (ExpressionsSemanticsVisitor_visit I tc c a (TmplAstBoundEvent event) ds) \<Longrightarrow>
   d \<in> set ds \<or>
   (\<exists>target msg. msg \<in> set (rule_messages target) \<and>
      d = makeIllegalTemplateVarDiagnostic I tc c target event msg)"
  "d \<in> set (ExpressionsSemanticsVisitor_visitAll I tc c asts (TmplAstBoundEvent event) ds) \<Longrightarrow>
   d \<in> set ds \<or>
   (\<exists>target msg. msg \<in> set (rule_messages target) \<and>
      d = makeIllegalTemplateVarDiagnostic I tc c target event msg)"
proof (induct a and asts arbitrary: ds and ds
    rule: ExpressionsSemanticsVisitor_visit.induct ExpressionsSemanticsVisitor_visitAll.induct)
  case (PropertyRead i rcv n)
  from PropertyRead(2) have "d \<in> set (checkForIllegalWriteInTwoWayBinding I tc c
      (PropertyRead i rcv n) (TmplAstBoundEvent event)
      (ExpressionsSemanticsVisitor_visit I tc c rcv (TmplAstBoundEvent event) ds))"
    by simp
  from two_way_check_origin [OF this] PropertyRead(1) [of ds] show ?case by blast
next
  case (PropertyWrite i rcv n v)
  from PropertyWrite(3) have "d \<in> set (checkForIllegalWriteInEventBinding I tc c
      (PropertyWrite i rcv n v) (TmplAstBoundEvent event)
      (ExpressionsSemanticsVisitor_visit I tc c v (TmplAstBoundEvent event)
         (ExpressionsSemanticsVisitor_visit I tc c rcv (TmplAstBoundEvent event) ds)))"
    by simp
  from event_check_origin [OF this]
    PropertyWrite(2) [of "ExpressionsSemanticsVisitor_visit I tc c rcv (TmplAstBoundEvent event) ds"]
    PropertyWrite(1) [of ds]
  show ?case by blast
next
  case (OtherAST i singles many)
  from OtherAST(3) have "d \<in> set (ExpressionsSemanticsVisitor_visitAll I tc c many
      (TmplAstBoundEvent event)
      (ExpressionsSemanticsVisitor_visitAll I tc c singles (TmplAstBoundEvent event) ds))"
    by simp
  from OtherAST(2) [OF this] OtherAST(1) [of ds] show ?case by blast
next
  case (Cons_ast a asts)
  from Cons_ast(3) have "d \<in> set (ExpressionsSemanticsVisitor_visitAll I tc c asts
      (TmplAstBoundEvent event)
      (ExpressionsSemanticsVisitor_visit I tc c a (TmplAstBoundEvent event) ds))"
    by simp
  from Cons_ast(2) [OF this] Cons_ast(1) [of ds] show ?case by blast
next
  case (ASTWithSource i a)
  from ASTWithSource(2) have
    "d \<in> set (ExpressionsSemanticsVisitor_visit I tc c a (TmplAstBoundEvent event) ds)"
    by simp
  from ASTWithSource(1) [OF this] show ?case .
next
  case (ImplicitReceiver i)
  then show ?case by simp
next
  case Nil_ast
  then show ?case by simp
qed

lemma facade_events:
  "getTemplate tc c = Some nodes \<Longrightarrow>
   getDiagnosticsForComponent I tc c =
   concat (map (handler_diagnostics I tc c) (boundEvents_list nodes))"
  by (simp add: getDiagnosticsForComponent_def TemplateSemanticsVisitor_visit_def
      template_visit_events(2))

lemma facade_origin:
  assumes "d \<in> set (getDiagnosticsForComponent I tc c)"
  shows "\<exists>nodes event target msg.
    getTemplate tc c = Some nodes \<and> event \<in> set (boundEvents_list nodes) \<and>
    d \<in> set (handler_diagnostics I tc c event) \<and>
    msg \<in> set (rule_messages target) \<and>
    d = makeIllegalTemplateVarDiagnostic I tc c target event msg"
proof (cases "getTemplate tc c")
  case None
  with assms show ?thesis by (simp add: getDiagnosticsForComponent_def)
next
  case (Some nodes)
  with assms obtain event where ev: "event \<in> set (boundEvents_list nodes)"
    and d: "d \<in> set (handler_diagnostics I tc c event)"
    by (auto simp: facade_events)
  from d expression_visit_origin(1) [of d I tc c "handler event" event "[]"]
  obtain target msg where "msg \<in> set (rule_messages target)"
    and "d = makeIllegalTemplateVarDiagnostic I tc c target event msg"
    by (auto simp: handler_diagnostics_def)
  with Some ev d show ?thesis by blast
qed

lemma make_diagnostic_same_answers:
  "makeTemplateDiagnostic tc c = makeTemplateDiagnostic tc' c \<Longrightarrow>
   makeIllegalTemplateVarDiagnostic I tc c target event msg =
   makeIllegalTemplateVarDiagnostic I tc' c target event msg"
  by (simp add: make_diagnostic_fields)

lemma event_check_same_answers:
  assumes "same_answers tc tc' c"
  shows "checkForIllegalWriteInEventBinding I tc c a ctx ds =
    checkForIllegalWriteInEventBinding I tc' c a ctx ds"
proof -
  from assms have t: "\<And>x. getExpressionTarget tc x c = getExpressionTarget tc' x c"
    and m: "makeTemplateDiagnostic tc c = makeTemplateDiagnostic tc' c"
    by (simp_all add: same_answers_def)
  show ?thesis
    by (cases "(I, tc, c, a, ctx, ds)" rule: checkForIllegalWriteInEventBinding.cases)
       (simp_all add: t make_diagnostic_same_answers [OF m]
          split: option.splits template_entity.splits)
qed

lemma two_way_check_same_answers:
  assumes "same_answers tc tc' c"
  shows "checkForIllegalWriteInTwoWayBinding I tc c a ctx ds =
    checkForIllegalWriteInTwoWayBinding I tc' c a ctx ds"
proof -
  from assms have t: "\<And>x. getExpressionTarget tc x c = getExpressionTarget tc' x c"
    and s: "\<And>x. getSymbolOfNode tc x c = getSymbolOfNode tc' x c"
    and m: "makeTemplateDiagnostic tc c = makeTemplateDiagnostic tc' c"
    by (simp_all add: same_answers_def)
  show ?thesis
    by (cases "(I, tc, c, a, ctx, ds)" rule: checkForIllegalWriteInTwoWayBinding.cases)
       (simp_all add: t s make_diagnostic_same_answers [OF m]
          split: option.splits template_entity.splits)
qed

lemma expression_visit_same_answers:
  assumes "same_answers tc tc' c"
  shows "ExpressionsSemanticsVisitor_visit I tc c a ctx ds =
      ExpressionsSemanticsVisitor_visit I tc' c a ctx ds"
    and "ExpressionsSemanticsVisitor_visitAll I tc c asts ctx ds =
      ExpressionsSemanticsVisitor_visitAll I tc' c asts ctx ds"
  by (induct a and asts arbitrary: ds and ds
        rule: ExpressionsSemanticsVisitor_visit.induct ExpressionsSemanticsVisitor_visitAll.induct)
     (simp_all add: event_check_same_answers [OF assms] two_way_check_same_answers [OF assms])

lemma two_way_check_other_object:
  "oid a \<noteq> oid (unwrapAstWithSource (handler event)) \<Longrightarrow>
   checkForIllegalWriteInTwoWayBinding I tc c a (TmplAstBoundEvent event) ds = ds"
  by (cases "(I, tc, c, a, TmplAstBoundEvent event, ds)"
        rule: checkForIllegalWriteInTwoWayBinding.cases) simp_all

lemma nested_is_other_object:
  assumes "distinct_objects h" and "a \<in> set (descendants (unwrapAstWithSource h))"
  shows "oid a \<noteq> oid (unwrapAstWithSource h)"
proof -
  have "distinct (map oid (unwrapAstWithSource h # descendants (unwrapAstWithSource h)))"
    using assms(1) by (cases h) (simp_all add: distinct_objects_def)
  then have "oid (unwrapAstWithSource h) \<notin> oid ` set (descendants (unwrapAstWithSource h))"
    by simp
  with assms(2) show ?thesis by (metis imageI)
qed


lemma sample_run:
  "getDiagnosticsForComponent sample_imported sample_checker app_component =
   [makeIllegalTemplateVarDiagnostic sample_imported sample_checker app_component
      (TmplAstVariable item_variable) click_event (write_message ''item''),
    makeIllegalTemplateVarDiagnostic sample_imported sample_checker app_component
      (TmplAstLetDeclaration total_declaration) (two_way_event 20 ''total'')
      (two_way_let_message ''total'')]"
proof -
  have t: "getTemplate sample_checker app_component = Some app_template"
    by (simp add: sample_checker_def app_component_def)
  have e: "boundEvents_list app_template = [click_event, two_way_event 20 ''total'']"
    by (simp add: app_template_def)
  have c: "handler_diagnostics sample_imported sample_checker app_component click_event =
    [makeIllegalTemplateVarDiagnostic sample_imported sample_checker app_component
      (TmplAstVariable item_variable) click_event (write_message ''item'')]"
    by (simp add: handler_diagnostics_def click_event_def item_write_def sample_checker_def
        resolve_name_def item_variable_def)
  have w: "handler_diagnostics sample_imported sample_checker app_component
      (two_way_event 20 ''total'') =
    [makeIllegalTemplateVarDiagnostic sample_imported sample_checker app_component
      (TmplAstLetDeclaration total_declaration) (two_way_event 20 ''total'')
      (two_way_let_message ''total'')]"
    by (simp add: handler_diagnostics_def two_way_event_def sample_checker_def
        resolve_name_def total_declaration_def sample_symbol_def sample_imported_def)
  show ?thesis
    by (simp add: facade_events [OF t] e c w)
qed

subsection \<open>Rule A\<close>

text \<open>
  C1. A \<^verbatim>\<open>PropertyWrite\<close> whose receiver is an \<^verbatim>\<open>ImplicitReceiver\<close> is visited with a
  bound event (of any kind) as context. After the written value has been visited, exactly
  one diagnostic is pushed when the type checker resolves the write to a template
  variable, with the message that template variables are read-only; nothing is pushed for
  the write when the target is a \<^verbatim>\<open>@let\<close> declaration, a reference or \<^verbatim>\<open>null\<close>.
  The visitor reaches every such write of a handler: the diagnostic of a write to a variable
  anywhere in the handler of a bound event is among the diagnostics of that handler.
\<close>

theorem rule_A_write_to_variable:
  "ExpressionsSemanticsVisitor_visit I tc c (PropertyWrite i (ImplicitReceiver r) n v)
     (TmplAstBoundEvent event) ds =
   ExpressionsSemanticsVisitor_visit I tc c v (TmplAstBoundEvent event) ds @
   (case getExpressionTarget tc (PropertyWrite i (ImplicitReceiver r) n v) c of
      Some (TmplAstVariable target) \<Rightarrow>
        [makeIllegalTemplateVarDiagnostic I tc c (TmplAstVariable target) event
           (''Cannot use variable '' @ apostrophe @ var_name target @ apostrophe @
            '' as the left-hand side of an assignment expression. Template variables are read-only.'')]
    | _ \<Rightarrow> []) \<and>
   (PropertyWrite i (ImplicitReceiver r) n v \<in> set (handler event # descendants (handler event)) \<and>
    getExpressionTarget tc (PropertyWrite i (ImplicitReceiver r) n v) c =
      Some (TmplAstVariable t) \<longrightarrow>
    makeIllegalTemplateVarDiagnostic I tc c (TmplAstVariable t) event
      (''Cannot use variable '' @ apostrophe @ var_name t @ apostrophe @
       '' as the left-hand side of an assignment expression. Template variables are read-only.'')
    \<in> set (handler_diagnostics I tc c event))"
proof (intro conjI impI)
  show "ExpressionsSemanticsVisitor_visit I tc c (PropertyWrite i (ImplicitReceiver r) n v)
     (TmplAstBoundEvent event) ds =
   ExpressionsSemanticsVisitor_visit I tc c v (TmplAstBoundEvent event) ds @
   (case getExpressionTarget tc (PropertyWrite i (ImplicitReceiver r) n v) c of
      Some (TmplAstVariable target) \<Rightarrow>
        [makeIllegalTemplateVarDiagnostic I tc c (TmplAstVariable target) event
           (''Cannot use variable '' @ apostrophe @ var_name target @ apostrophe @
            '' as the left-hand side of an assignment expression. Template variables are read-only.'')]
    | _ \<Rightarrow> [])"
    by (simp add: write_message_def split: option.splits template_entity.splits)
next
  assume a: "PropertyWrite i (ImplicitReceiver r) n v \<in>
      set (handler event # descendants (handler event)) \<and>
    getExpressionTarget tc (PropertyWrite i (ImplicitReceiver r) n v) c =
      Some (TmplAstVariable t)"
  then have "makeIllegalTemplateVarDiagnostic I tc c (TmplAstVariable t) event
      (''Cannot use variable '' @ apostrophe @ var_name t @ apostrophe @
       '' as the left-hand side of an assignment expression. Template variables are read-only.'')
    \<in> set (ExpressionsSemanticsVisitor_visit I tc c (PropertyWrite i (ImplicitReceiver r) n v)
        (TmplAstBoundEvent event) [])"
    by (simp add: write_message_def)
  with a handler_visit_reaches [of "PropertyWrite i (ImplicitReceiver r) n v" event I tc c]
  show "makeIllegalTemplateVarDiagnostic I tc c (TmplAstVariable t) event
      (''Cannot use variable '' @ apostrophe @ var_name t @ apostrophe @
       '' as the left-hand side of an assignment expression. Template variables are read-only.'')
    \<in> set (handler_diagnostics I tc c event)"
    by blast
qed

text \<open>
  In the sample component, \<open>(click)="item = 1"\<close> gets the diagnostic, and a write to the
  \<^verbatim>\<open>@let\<close> declaration \<open>total\<close> or to the unresolved name \<open>title\<close> gets none.
\<close>

theorem rule_A_write_to_variable_witness:
  "map diag_messageText
     (ExpressionsSemanticsVisitor_visit sample_imported sample_checker app_component
        (PropertyWrite 11 (ImplicitReceiver 12) ''item'' (OtherAST 13 [] []))
        (TmplAstBoundEvent click_event) []) =
   [''Cannot use variable '' @ apostrophe @ ''item'' @ apostrophe @
    '' as the left-hand side of an assignment expression. Template variables are read-only.''] \<and>
   ExpressionsSemanticsVisitor_visit sample_imported sample_checker app_component
     (PropertyWrite 14 (ImplicitReceiver 15) ''total'' (OtherAST 16 [] []))
     (TmplAstBoundEvent click_event) [] = [] \<and>
   ExpressionsSemanticsVisitor_visit sample_imported sample_checker app_component
     (PropertyWrite 14 (ImplicitReceiver 15) ''title'' (OtherAST 16 [] []))
     (TmplAstBoundEvent click_event) [] = [] \<and>
   PropertyWrite 11 (ImplicitReceiver 12) ''item'' (OtherAST 13 [] []) \<in>
     set (handler click_event # descendants (handler click_event)) \<and>
   getExpressionTarget sample_checker
     (PropertyWrite 11 (ImplicitReceiver 12) ''item'' (OtherAST 13 [] [])) app_component =
     Some (TmplAstVariable item_variable) \<and>
   makeIllegalTemplateVarDiagnostic sample_imported sample_checker app_component
     (TmplAstVariable item_variable) click_event
     (''Cannot use variable '' @ apostrophe @ var_name item_variable @ apostrophe @
      '' as the left-hand side of an assignment expression. Template variables are read-only.'')
     \<in> set (handler_diagnostics sample_imported sample_checker app_component click_event)"
proof -
  have eqs: "map diag_messageText
     (ExpressionsSemanticsVisitor_visit sample_imported sample_checker app_component
        (PropertyWrite 11 (ImplicitReceiver 12) ''item'' (OtherAST 13 [] []))
        (TmplAstBoundEvent click_event) []) =
   [''Cannot use variable '' @ apostrophe @ ''item'' @ apostrophe @
    '' as the left-hand side of an assignment expression. Template variables are read-only.''] \<and>
   ExpressionsSemanticsVisitor_visit sample_imported sample_checker app_component
     (PropertyWrite 14 (ImplicitReceiver 15) ''total'' (OtherAST 16 [] []))
     (TmplAstBoundEvent click_event) [] = [] \<and>
   ExpressionsSemanticsVisitor_visit sample_imported sample_checker app_component
     (PropertyWrite 14 (ImplicitReceiver 15) ''title'' (OtherAST 16 [] []))
     (TmplAstBoundEvent click_event) [] = []"
    apply (subst rule_A_write_to_variable [THEN conjunct1])+
    apply (simp add: sample_checker_def resolve_name_def item_variable_def
        makeIllegalTemplateVarDiagnostic_def recordDiagnostic_def Let_def)
    done
  have m: "PropertyWrite 11 (ImplicitReceiver 12) ''item'' (OtherAST 13 [] []) \<in>
     set (handler click_event # descendants (handler click_event))"
    by (simp add: click_event_def item_write_def)
  have t: "getExpressionTarget sample_checker
     (PropertyWrite 11 (ImplicitReceiver 12) ''item'' (OtherAST 13 [] [])) app_component =
     Some (TmplAstVariable item_variable)"
    by (simp add: sample_checker_def resolve_name_def)
  from m t rule_A_write_to_variable [where event = click_event and i = 11 and r = 12
      and n = "''item''" and v = "OtherAST 13 [] []" and tc = sample_checker
      and c = app_component and t = item_variable and I = sample_imported, THEN conjunct2]
  have "makeIllegalTemplateVarDiagnostic sample_imported sample_checker app_component
     (TmplAstVariable item_variable) click_event
     (''Cannot use variable '' @ apostrophe @ var_name item_variable @ apostrophe @
      '' as the left-hand side of an assignment expression. Template variables are read-only.'')
     \<in> set (handler_diagnostics sample_imported sample_checker app_component click_event)"
    by blast
  with eqs m t show ?thesis by blast
qed

subsection \<open>Rule B\<close>

text \<open>
  C2. The check of Rule B changes the diagnostics only when the context is a bound event
  of kind two-way, the node is a \<^verbatim>\<open>PropertyRead\<close> whose receiver is an
  \<^verbatim>\<open>ImplicitReceiver\<close>, and the node is the very object that is the handler's expression
  once a top-level \<^verbatim>\<open>ASTWithSource\<close> is stripped. So, in a handler whose objects are
  pairwise distinct, a read below that root expression gets no diagnostic, whatever it
  resolves to.
\<close>

theorem rule_B_trigger:
  "(checkForIllegalWriteInTwoWayBinding I tc c a ctx ds \<noteq> ds \<longrightarrow>
      (\<exists>event i r n.
         ctx = TmplAstBoundEvent event \<and> event_type event = TwoWay \<and>
         a = PropertyRead i (ImplicitReceiver r) n \<and>
         oid a = oid (unwrapAstWithSource (handler event)))) \<and>
   (distinct_objects (handler ev) \<and> a \<in> set (descendants (unwrapAstWithSource (handler ev))) \<longrightarrow>
      checkForIllegalWriteInTwoWayBinding I tc c a (TmplAstBoundEvent ev) ds = ds)"
proof (intro conjI impI)
  assume "checkForIllegalWriteInTwoWayBinding I tc c a ctx ds \<noteq> ds"
  then show "\<exists>event i r n.
      ctx = TmplAstBoundEvent event \<and> event_type event = TwoWay \<and>
      a = PropertyRead i (ImplicitReceiver r) n \<and>
      oid a = oid (unwrapAstWithSource (handler event))"
    by (cases "(I, tc, c, a, ctx, ds)" rule: checkForIllegalWriteInTwoWayBinding.cases)
       (auto split: if_splits)
next
  assume "distinct_objects (handler ev) \<and>
    a \<in> set (descendants (unwrapAstWithSource (handler ev)))"
  then have "oid a \<noteq> oid (unwrapAstWithSource (handler ev))"
    using nested_is_other_object [of "handler ev" a] by simp
  then show "checkForIllegalWriteInTwoWayBinding I tc c a (TmplAstBoundEvent ev) ds = ds"
    by (rule two_way_check_other_object)
qed

text \<open>
  In \<open>[(ngModel)]="item.name"\<close> the read of \<open>item\<close>, a variable that is no signal, lies
  below the root and gets no diagnostic; in \<open>[(ngModel)]="total"\<close> the read of \<open>total\<close>
  is the root, and the check pushes; for another object with the same receiver and name
  it does not.
\<close>

theorem rule_B_trigger_witness:
  "distinct_objects (handler nested_event) \<and>
   item_read \<in> set (descendants (unwrapAstWithSource (handler nested_event))) \<and>
   getExpressionTarget sample_checker item_read app_component =
     Some (TmplAstVariable item_variable) \<and>
   getSymbolOfNode sample_checker (TmplAstVariable item_variable) app_component = Some False \<and>
   checkForIllegalWriteInTwoWayBinding sample_imported sample_checker app_component item_read
     (TmplAstBoundEvent nested_event) [] = [] \<and>
   checkForIllegalWriteInTwoWayBinding sample_imported sample_checker app_component
     (PropertyRead 98 (ImplicitReceiver 99) ''total'')
     (TmplAstBoundEvent (two_way_event 20 ''total'')) [] = [] \<and>
   checkForIllegalWriteInTwoWayBinding sample_imported sample_checker app_component
     (PropertyRead 21 (ImplicitReceiver 22) ''total'')
     (TmplAstBoundEvent (two_way_event 20 ''total'')) [] \<noteq> [] \<and>
   (\<exists>event i r n.
      TmplAstBoundEvent (two_way_event 20 ''total'') = TmplAstBoundEvent event \<and>
      event_type event = TwoWay \<and>
      PropertyRead 21 (ImplicitReceiver 22) ''total'' = PropertyRead i (ImplicitReceiver r) n \<and>
      oid (PropertyRead 21 (ImplicitReceiver 22) ''total'') =
        oid (unwrapAstWithSource (handler event)))"
proof -
  have d: "distinct_objects (handler nested_event)"
    by (simp add: distinct_objects_def nested_event_def item_read_def)
  have m: "item_read \<in> set (descendants (unwrapAstWithSource (handler nested_event)))"
    by (simp add: nested_event_def)
  have t: "getExpressionTarget sample_checker item_read app_component =
      Some (TmplAstVariable item_variable)"
    by (simp add: sample_checker_def item_read_def resolve_name_def)
  have s: "getSymbolOfNode sample_checker (TmplAstVariable item_variable) app_component =
      Some False"
    by (simp add: sample_checker_def sample_symbol_def item_variable_def)
  from d m rule_B_trigger [of sample_imported sample_checker app_component item_read
      "TmplAstBoundEvent nested_event" "[]" nested_event]
  have n: "checkForIllegalWriteInTwoWayBinding sample_imported sample_checker app_component
      item_read (TmplAstBoundEvent nested_event) [] = []"
    by blast
  have "oid (PropertyRead 98 (ImplicitReceiver 99) ''total'') \<noteq>
      oid (unwrapAstWithSource (handler (two_way_event 20 ''total'')))"
    by (simp add: two_way_event_def)
  with rule_B_trigger [of sample_imported sample_checker app_component
      "PropertyRead 98 (ImplicitReceiver 99) ''total''"
      "TmplAstBoundEvent (two_way_event 20 ''total'')" "[]" nested_event]
  have q: "checkForIllegalWriteInTwoWayBinding sample_imported sample_checker app_component
      (PropertyRead 98 (ImplicitReceiver 99) ''total'')
      (TmplAstBoundEvent (two_way_event 20 ''total'')) [] = []"
    by blast
  have p: "checkForIllegalWriteInTwoWayBinding sample_imported sample_checker app_component
      (PropertyRead 21 (ImplicitReceiver 22) ''total'')
      (TmplAstBoundEvent (two_way_event 20 ''total'')) [] \<noteq> []"
    by (simp add: two_way_event_def sample_checker_def sample_imported_def resolve_name_def
        sample_symbol_def total_declaration_def)
  from p rule_B_trigger [of sample_imported sample_checker app_component
      "PropertyRead 21 (ImplicitReceiver 22) ''total''"
      "TmplAstBoundEvent (two_way_event 20 ''total'')" "[]" nested_event]
  have "\<exists>event i r n.
      TmplAstBoundEvent (two_way_event 20 ''total'') = TmplAstBoundEvent event \<and>
      event_type event = TwoWay \<and>
      PropertyRead 21 (ImplicitReceiver 22) ''total'' = PropertyRead i (ImplicitReceiver r) n \<and>
      oid (PropertyRead 21 (ImplicitReceiver 22) ''total'') =
        oid (unwrapAstWithSource (handler event))"
    by blast
  with d m t s n q p show ?thesis by blast
qed

text \<open>
  C3. When Rule B is triggered (a \<^verbatim>\<open>PropertyRead\<close> with an \<^verbatim>\<open>ImplicitReceiver\<close> that is
  the unwrapped handler of a two-way bound event) and the type checker has a symbol for
  the target: a variable that is no signal gets exactly one diagnostic, worded for a
  variable; a \<^verbatim>\<open>@let\<close> declaration that is no signal gets exactly one, worded for a
  \<^verbatim>\<open>@let\<close> declaration; a target that is a signal gets none.
\<close>

theorem rule_B_outcome:
  assumes "event_type event = TwoWay"
    and "oid (unwrapAstWithSource (handler event)) = i"
  shows
    "(getExpressionTarget tc (PropertyRead i (ImplicitReceiver r) n) c =
        Some (TmplAstVariable v) \<and>
      getSymbolOfNode tc (TmplAstVariable v) c = Some symbol \<and> \<not> isSignalReference I symbol \<longrightarrow>
      ExpressionsSemanticsVisitor_visit I tc c (PropertyRead i (ImplicitReceiver r) n)
        (TmplAstBoundEvent event) ds =
      ds @ [makeIllegalTemplateVarDiagnostic I tc c (TmplAstVariable v) event
              (''Cannot use a non-signal variable '' @ apostrophe @ var_name v @ apostrophe @
               '' in a two-way binding expression. Template variables are read-only.'')]) \<and>
     (getExpressionTarget tc (PropertyRead i (ImplicitReceiver r) n) c =
        Some (TmplAstLetDeclaration l) \<and>
      getSymbolOfNode tc (TmplAstLetDeclaration l) c = Some symbol \<and>
      \<not> isSignalReference I symbol \<longrightarrow>
      ExpressionsSemanticsVisitor_visit I tc c (PropertyRead i (ImplicitReceiver r) n)
        (TmplAstBoundEvent event) ds =
      ds @ [makeIllegalTemplateVarDiagnostic I tc c (TmplAstLetDeclaration l) event
              (''Cannot use non-signal @let declaration '' @ apostrophe @ let_name l @ apostrophe @
               '' in a two-way binding expression. @let declarations are read-only.'')]) \<and>
     (getExpressionTarget tc (PropertyRead i (ImplicitReceiver r) n) c = Some target \<and>
      getSymbolOfNode tc target c = Some symbol \<and> isSignalReference I symbol \<longrightarrow>
      ExpressionsSemanticsVisitor_visit I tc c (PropertyRead i (ImplicitReceiver r) n)
        (TmplAstBoundEvent event) ds = ds)"
  using assms
  by (cases target)
     (simp_all add: two_way_variable_message_def two_way_let_message_def)

text \<open>
  The handlers of \<open>[(ngModel)]="item"\<close>, \<open>[(ngModel)]="total"\<close> and
  \<open>[(ngModel)]="count"\<close> in the sample component.
\<close>

theorem rule_B_outcome_witness:
  "map diag_messageText
     (ExpressionsSemanticsVisitor_visit sample_imported sample_checker app_component
        (PropertyRead 51 (ImplicitReceiver 52) ''item'')
        (TmplAstBoundEvent (two_way_event 50 ''item'')) []) =
   [''Cannot use a non-signal variable '' @ apostrophe @ ''item'' @ apostrophe @
    '' in a two-way binding expression. Template variables are read-only.''] \<and>
   map diag_messageText
     (ExpressionsSemanticsVisitor_visit sample_imported sample_checker app_component
        (PropertyRead 21 (ImplicitReceiver 22) ''total'')
        (TmplAstBoundEvent (two_way_event 20 ''total'')) []) =
   [''Cannot use non-signal @let declaration '' @ apostrophe @ ''total'' @ apostrophe @
    '' in a two-way binding expression. @let declarations are read-only.''] \<and>
   ExpressionsSemanticsVisitor_visit sample_imported sample_checker app_component
     (PropertyRead 61 (ImplicitReceiver 62) ''count'')
     (TmplAstBoundEvent (two_way_event 60 ''count'')) [] = []"
proof -
  have tw: "event_type (two_way_event k x) = TwoWay"
    and root: "oid (unwrapAstWithSource (handler (two_way_event k x))) = k + 1" for k x
    by (simp_all add: two_way_event_def)
  have item:
    "getExpressionTarget sample_checker (PropertyRead 51 (ImplicitReceiver 52) ''item'')
       app_component = Some (TmplAstVariable item_variable) \<and>
     getSymbolOfNode sample_checker (TmplAstVariable item_variable) app_component = Some False \<and>
     \<not> isSignalReference sample_imported False"
    by (simp add: sample_checker_def resolve_name_def sample_symbol_def item_variable_def
        sample_imported_def)
  have total:
    "getExpressionTarget sample_checker (PropertyRead 21 (ImplicitReceiver 22) ''total'')
       app_component = Some (TmplAstLetDeclaration total_declaration) \<and>
     getSymbolOfNode sample_checker (TmplAstLetDeclaration total_declaration) app_component =
       Some False \<and>
     \<not> isSignalReference sample_imported False"
    by (simp add: sample_checker_def resolve_name_def sample_symbol_def total_declaration_def
        sample_imported_def)
  have count:
    "getExpressionTarget sample_checker (PropertyRead 61 (ImplicitReceiver 62) ''count'')
       app_component = Some (TmplAstVariable count_variable) \<and>
     getSymbolOfNode sample_checker (TmplAstVariable count_variable) app_component = Some True \<and>
     isSignalReference sample_imported True"
    by (simp add: sample_checker_def resolve_name_def sample_symbol_def count_variable_def
        sample_imported_def)
  have a: "ExpressionsSemanticsVisitor_visit sample_imported sample_checker app_component
      (PropertyRead 51 (ImplicitReceiver 52) ''item'')
      (TmplAstBoundEvent (two_way_event 50 ''item'')) [] =
    [makeIllegalTemplateVarDiagnostic sample_imported sample_checker app_component
       (TmplAstVariable item_variable) (two_way_event 50 ''item'')
       (''Cannot use a non-signal variable '' @ apostrophe @ var_name item_variable @ apostrophe @
        '' in a two-way binding expression. Template variables are read-only.'')]"
    using item tw [of 50 "''item''"] root [of 50 "''item''"]
      rule_B_outcome [where event = "two_way_event 50 ''item''" and i = 51
        and tc = sample_checker and r = 52 and n = "''item''" and c = app_component
        and v = item_variable and symbol = False and I = sample_imported and ds = "[]"]
    by simp
  have b: "ExpressionsSemanticsVisitor_visit sample_imported sample_checker app_component
      (PropertyRead 21 (ImplicitReceiver 22) ''total'')
      (TmplAstBoundEvent (two_way_event 20 ''total'')) [] =
    [makeIllegalTemplateVarDiagnostic sample_imported sample_checker app_component
       (TmplAstLetDeclaration total_declaration) (two_way_event 20 ''total'')
       (''Cannot use non-signal @let declaration '' @ apostrophe @ let_name total_declaration @
        apostrophe @ '' in a two-way binding expression. @let declarations are read-only.'')]"
    using total tw [of 20 "''total''"] root [of 20 "''total''"]
      rule_B_outcome [where event = "two_way_event 20 ''total''" and i = 21
        and tc = sample_checker and r = 22 and n = "''total''" and c = app_component
        and l = total_declaration and symbol = False and I = sample_imported and ds = "[]"]
    by simp
  have c: "ExpressionsSemanticsVisitor_visit sample_imported sample_checker app_component
      (PropertyRead 61 (ImplicitReceiver 62) ''count'')
      (TmplAstBoundEvent (two_way_event 60 ''count'')) [] = []"
    using count tw [of 60 "''count''"] root [of 60 "''count''"]
      rule_B_outcome [where event = "two_way_event 60 ''count''" and i = 61
        and tc = sample_checker and r = 62 and n = "''count''" and c = app_component
        and target = "TmplAstVariable count_variable" and symbol = True
        and I = sample_imported and ds = "[]"]
    by simp
  show ?thesis
    unfolding a b c
    by (simp add: makeIllegalTemplateVarDiagnostic_def Let_def sample_checker_def
        recordDiagnostic_def item_variable_def total_declaration_def)
qed

subsection \<open>The diagnostics that are built\<close>

text \<open>
  C4, as the claim states it, fails for a \<^verbatim>\<open>@let\<close> declaration: the annotation of its
  diagnostic spans the whole declaration, although the declaration has a value span.
  For \<open>[(ngModel)]="total"\<close> in the sample component the annotation runs from 60 to 75,
  the span of \<^verbatim>\<open>@let total = 1;\<close>, and not from 73 to 74, the span of its initialiser.
\<close>

theorem let_annotation_spans_declaration:
  "getExpressionTarget sample_checker (PropertyRead 21 (ImplicitReceiver 22) ''total'')
     app_component = Some (TmplAstLetDeclaration total_declaration) \<and>
   let_valueSpan total_declaration = Some (span_in ''app.html'' 73 74) \<and>
   let_sourceSpan total_declaration = span_in ''app.html'' 60 75 \<and>
   annotation_starts
     (ExpressionsSemanticsVisitor_visit sample_imported sample_checker app_component
        (PropertyRead 21 (ImplicitReceiver 22) ''total'')
        (TmplAstBoundEvent (two_way_event 20 ''total'')) []) = [60] \<and>
   annotation_ends
     (ExpressionsSemanticsVisitor_visit sample_imported sample_checker app_component
        (PropertyRead 21 (ImplicitReceiver 22) ''total'')
        (TmplAstBoundEvent (two_way_event 20 ''total'')) []) = [75]"
  by (simp add: annotation_starts_def annotation_ends_def two_way_event_def sample_checker_def
      resolve_name_def total_declaration_def sample_symbol_def sample_imported_def
      makeIllegalTemplateVarDiagnostic_def recordDiagnostic_def span_in_def)

text \<open>
  C4, amended. Every diagnostic the checker returns for a component was built by
  \<^verbatim>\<open>makeTemplateDiagnostic\<close> for a variable or \<^verbatim>\<open>@let\<close> declaration \<open>target\<close> and
  for the bound event \<open>event\<close> of the component's template whose handler the diagnostic
  was pushed for, from: the handler span of the event,
  the category Error, the code of \<^verbatim>\<open>WRITE_TO_READ_ONLY_VARIABLE\<close>, a message of Rule A or
  Rule B about the target, and exactly one annotation, with the text
  \<^verbatim>\<open>'<name>' is declared here.\<close> and the offsets of \<open>declaration_span target\<close>: for a
  variable its value span when it has one and its declaration span otherwise, for a
  \<^verbatim>\<open>@let\<close> declaration always its declaration span.
\<close>

theorem diagnostic_fields:
  "\<forall>d \<in> set (getDiagnosticsForComponent I tc c).
     \<exists>nodes event target msg.
       getTemplate tc c = Some nodes \<and> event \<in> set (boundEvents_list nodes) \<and>
       d \<in> set (handler_diagnostics I tc c event) \<and>
       msg \<in> set (rule_messages target) \<and>
       d = makeTemplateDiagnostic tc c (handlerSpan event) CategoryError
             (ngErrorCode I WRITE_TO_READ_ONLY_VARIABLE) msg
             [\<lparr>rel_text = apostrophe @ entity_name target @ apostrophe @ '' is declared here.'',
               rel_start = loc_offset (span_start (declaration_span target)),
               rel_end = loc_offset (span_end (declaration_span target)),
               rel_sourceFile = getSourceFile c\<rparr>]"
proof
  fix d
  assume "d \<in> set (getDiagnosticsForComponent I tc c)"
  from facade_origin [OF this] obtain nodes event target msg where
    "getTemplate tc c = Some nodes" "event \<in> set (boundEvents_list nodes)"
    "d \<in> set (handler_diagnostics I tc c event)"
    "msg \<in> set (rule_messages target)"
    "d = makeIllegalTemplateVarDiagnostic I tc c target event msg"
    by blast
  then show "\<exists>nodes event target msg.
       getTemplate tc c = Some nodes \<and> event \<in> set (boundEvents_list nodes) \<and>
       d \<in> set (handler_diagnostics I tc c event) \<and>
       msg \<in> set (rule_messages target) \<and>
       d = makeTemplateDiagnostic tc c (handlerSpan event) CategoryError
             (ngErrorCode I WRITE_TO_READ_ONLY_VARIABLE) msg
             [\<lparr>rel_text = apostrophe @ entity_name target @ apostrophe @ '' is declared here.'',
               rel_start = loc_offset (span_start (declaration_span target)),
               rel_end = loc_offset (span_end (declaration_span target)),
               rel_sourceFile = getSourceFile c\<rparr>]"
    unfolding make_diagnostic_fields by blast
qed

text \<open>The first diagnostic of the sample component, for \<open>(click)="item = 1"\<close>.\<close>

theorem diagnostic_fields_witness:
  "hd (getDiagnosticsForComponent sample_imported sample_checker app_component) \<in>
     set (getDiagnosticsForComponent sample_imported sample_checker app_component) \<and>
   (\<exists>nodes event target msg.
       getTemplate sample_checker app_component = Some nodes \<and>
       event \<in> set (boundEvents_list nodes) \<and>
       hd (getDiagnosticsForComponent sample_imported sample_checker app_component) \<in>
         set (handler_diagnostics sample_imported sample_checker app_component event) \<and>
       msg \<in> set (rule_messages target) \<and>
       hd (getDiagnosticsForComponent sample_imported sample_checker app_component) =
         makeTemplateDiagnostic sample_checker app_component (handlerSpan event) CategoryError
           (ngErrorCode sample_imported WRITE_TO_READ_ONLY_VARIABLE) msg
           [\<lparr>rel_text = apostrophe @ entity_name target @ apostrophe @ '' is declared here.'',
             rel_start = loc_offset (span_start (declaration_span target)),
             rel_end = loc_offset (span_end (declaration_span target)),
             rel_sourceFile = getSourceFile app_component\<rparr>])"
proof -
  have m: "hd (getDiagnosticsForComponent sample_imported sample_checker app_component) \<in>
     set (getDiagnosticsForComponent sample_imported sample_checker app_component)"
    by (simp add: sample_run)
  from m diagnostic_fields [of sample_imported sample_checker app_component]
  show ?thesis by blast
qed

text \<open>
  C5, as the claim states it, fails when the template is an external file: the
  declarations of \<open>item\<close> and \<open>total\<close> are in \<^verbatim>\<open>app.html\<close>, and the annotations of
  both diagnostics name \<^verbatim>\<open>app.ts\<close>, the file of the component class.
\<close>

theorem annotation_names_component_file:
  "annotation_files (getDiagnosticsForComponent sample_imported sample_checker app_component) =
     [''app.ts'', ''app.ts''] \<and>
   loc_file (span_start (var_sourceSpan item_variable)) = ''app.html'' \<and>
   loc_file (span_start (let_sourceSpan total_declaration)) = ''app.html'' \<and>
   getSourceFile app_component = ''app.ts''"
  unfolding sample_run
  by (simp add: annotation_files_def makeIllegalTemplateVarDiagnostic_def
      sample_checker_def recordDiagnostic_def app_component_def item_variable_def
      total_declaration_def span_in_def)

text \<open>
  C5, amended. The single annotation of every diagnostic is anchored to the source file
  of the component class that is checked, \<^verbatim>\<open>component.getSourceFile()\<close>, whichever file
  the declaration is in. (The diagnostics are read through \<open>recordDiagnostic\<close>, which
  keeps the annotations it is given.)
\<close>

theorem annotation_file:
  assumes "makeTemplateDiagnostic tc = recordDiagnostic"
  shows "annotation_files (getDiagnosticsForComponent I tc c) =
    replicate (length (getDiagnosticsForComponent I tc c)) (getSourceFile c)"
proof -
  have one: "map rel_sourceFile (diag_relatedInformation d) = [getSourceFile c]"
    if "d \<in> set (getDiagnosticsForComponent I tc c)" for d
    using facade_origin [OF that] assms
    by (auto simp: make_diagnostic_fields recordDiagnostic_def)
  have "map rel_sourceFile (concat (map diag_relatedInformation ds)) =
      replicate (length ds) (getSourceFile c)"
    if "\<And>d. d \<in> set ds \<Longrightarrow> map rel_sourceFile (diag_relatedInformation d) = [getSourceFile c]"
    for ds :: "template_diagnostic list"
    using that by (induct ds) simp_all
  from this [of "getDiagnosticsForComponent I tc c"] one
  show ?thesis by (simp add: annotation_files_def)
qed

theorem annotation_file_witness:
  "makeTemplateDiagnostic sample_checker = recordDiagnostic \<and>
   annotation_files (getDiagnosticsForComponent sample_imported sample_checker app_component) =
     replicate (length (getDiagnosticsForComponent sample_imported sample_checker app_component))
       (getSourceFile app_component)"
proof -
  have r: "makeTemplateDiagnostic sample_checker = recordDiagnostic"
    by (simp add: sample_checker_def)
  from r annotation_file [OF r, of sample_imported app_component] show ?thesis by blast
qed

subsection \<open>The facade and the walker\<close>



text \<open>
  C7. The rules do not fail on a target that is not resolved. When the type checker
  resolves an expression to \<^verbatim>\<open>null\<close>, neither rule pushes anything. When Rule B's target
  is resolved and the type checker has no symbol for it, Rule B pushes nothing; and when
  that read is the handler of a bound event, the walker goes on to the nodes after the
  event with the diagnostics it had.
\<close>

theorem fail_open:
  "(getExpressionTarget tc a c = None \<longrightarrow>
      checkForIllegalWriteInEventBinding I tc c a ctx ds = ds \<and>
      checkForIllegalWriteInTwoWayBinding I tc c a ctx ds = ds) \<and>
   (getExpressionTarget tc a c = Some target \<and> getSymbolOfNode tc target c = None \<longrightarrow>
      checkForIllegalWriteInTwoWayBinding I tc c a ctx ds = ds) \<and>
   (unwrapAstWithSource (handler event) = PropertyRead i (ImplicitReceiver r) n \<and>
    getExpressionTarget tc (PropertyRead i (ImplicitReceiver r) n) c = Some target \<and>
    getSymbolOfNode tc target c = None \<longrightarrow>
      TemplateSemanticsVisitor_visitNodes I tc c (TmplAstBoundEvent event # nodes) ds =
      TemplateSemanticsVisitor_visitNodes I tc c nodes ds)"
proof (intro conjI impI)
  assume "getExpressionTarget tc a c = None"
  then show "checkForIllegalWriteInEventBinding I tc c a ctx ds = ds"
    by (cases "(I, tc, c, a, ctx, ds)" rule: checkForIllegalWriteInEventBinding.cases)
       simp_all
next
  assume "getExpressionTarget tc a c = None"
  then show "checkForIllegalWriteInTwoWayBinding I tc c a ctx ds = ds"
    by (cases "(I, tc, c, a, ctx, ds)" rule: checkForIllegalWriteInTwoWayBinding.cases)
       auto
next
  assume "getExpressionTarget tc a c = Some target \<and> getSymbolOfNode tc target c = None"
  then show "checkForIllegalWriteInTwoWayBinding I tc c a ctx ds = ds"
    by (cases "(I, tc, c, a, ctx, ds)" rule: checkForIllegalWriteInTwoWayBinding.cases)
       (auto split: template_entity.splits)
next
  assume h: "unwrapAstWithSource (handler event) = PropertyRead i (ImplicitReceiver r) n \<and>
    getExpressionTarget tc (PropertyRead i (ImplicitReceiver r) n) c = Some target \<and>
    getSymbolOfNode tc target c = None"
  have "ExpressionsSemanticsVisitor_visit I tc c (handler event) (TmplAstBoundEvent event) [] =
      ExpressionsSemanticsVisitor_visit I tc c (unwrapAstWithSource (handler event))
        (TmplAstBoundEvent event) []"
    by (cases "handler event") simp_all
  with h have "handler_diagnostics I tc c event = []"
    by (auto simp: handler_diagnostics_def split: template_entity.splits)
  then show "TemplateSemanticsVisitor_visitNodes I tc c (TmplAstBoundEvent event # nodes) ds =
      TemplateSemanticsVisitor_visitNodes I tc c nodes ds"
    by (simp add: bound_event_visit)
qed

text \<open>
  In the sample component the name \<open>title\<close> resolves to nothing, and the variable
  \<open>orphan\<close> has no symbol: \<open>[(ngModel)]="orphan"\<close> gets no diagnostic, and the
  diagnostic of the event after it is still reported.
\<close>

theorem fail_open_witness:
  "getExpressionTarget sample_checker (PropertyRead 71 (ImplicitReceiver 72) ''title'')
     app_component = None \<and>
   checkForIllegalWriteInTwoWayBinding sample_imported sample_checker app_component
     (PropertyRead 71 (ImplicitReceiver 72) ''title'')
     (TmplAstBoundEvent (two_way_event 70 ''title'')) [] = [] \<and>
   getExpressionTarget sample_checker (PropertyRead 81 (ImplicitReceiver 82) ''orphan'')
     app_component = Some (TmplAstVariable orphan_variable) \<and>
   getSymbolOfNode sample_checker (TmplAstVariable orphan_variable) app_component = None \<and>
   checkForIllegalWriteInTwoWayBinding sample_imported sample_checker app_component
     (PropertyRead 81 (ImplicitReceiver 82) ''orphan'')
     (TmplAstBoundEvent (two_way_event 80 ''orphan'')) [] = [] \<and>
   length (TemplateSemanticsVisitor_visitNodes sample_imported sample_checker app_component
     [TmplAstBoundEvent (two_way_event 80 ''orphan''), TmplAstBoundEvent click_event] []) = 1"
proof -
  have t: "getExpressionTarget sample_checker (PropertyRead 71 (ImplicitReceiver 72) ''title'')
      app_component = None"
    by (simp add: sample_checker_def resolve_name_def)
  have o: "getExpressionTarget sample_checker (PropertyRead 81 (ImplicitReceiver 82) ''orphan'')
      app_component = Some (TmplAstVariable orphan_variable)"
    by (simp add: sample_checker_def resolve_name_def)
  have s: "getSymbolOfNode sample_checker (TmplAstVariable orphan_variable) app_component = None"
    by (simp add: sample_checker_def sample_symbol_def orphan_variable_def)
  have c: "TemplateSemanticsVisitor_visitNodes sample_imported sample_checker app_component
      [TmplAstBoundEvent click_event] [] =
    [makeIllegalTemplateVarDiagnostic sample_imported sample_checker app_component
      (TmplAstVariable item_variable) click_event (write_message ''item'')]"
    by (simp add: bound_event_visit handler_diagnostics_def click_event_def
        item_write_def sample_checker_def resolve_name_def item_variable_def)
  note f1 = fail_open [where tc = sample_checker and c = app_component
      and a = "PropertyRead 71 (ImplicitReceiver 72) ''title''" and I = sample_imported
      and ctx = "TmplAstBoundEvent (two_way_event 70 ''title'')" and ds = "[]"]
  have u: "unwrapAstWithSource (handler (two_way_event 80 ''orphan'')) =
      PropertyRead 81 (ImplicitReceiver 82) ''orphan''"
    by (simp add: two_way_event_def)
  note f2 = fail_open [where tc = sample_checker and c = app_component
      and a = "PropertyRead 81 (ImplicitReceiver 82) ''orphan''" and I = sample_imported
      and ctx = "TmplAstBoundEvent (two_way_event 80 ''orphan'')" and ds = "[]"
      and target = "TmplAstVariable orphan_variable"
      and event = "two_way_event 80 ''orphan''"
      and i = 81 and r = 82 and n = "''orphan''" and nodes = "[TmplAstBoundEvent click_event]"]
  from t o s u f1 f2 c show ?thesis by simp
qed

text \<open>
  C8. The list that the checker returns for a component is determined by the component
  and by what the type checker answers for it: two runs whose type checkers give the same
  template, the same targets, the same symbols and the same diagnostics for the component
  return the same list (the same diagnostics in the same order). In particular two runs
  with one type checker on an unchanged tree do.
\<close>

theorem runs_agree:
  assumes "same_answers tc tc' c"
  shows "getDiagnosticsForComponent I tc c = getDiagnosticsForComponent I tc' c"
proof (cases "getTemplate tc c")
  case None
  with assms show ?thesis
    by (simp add: getDiagnosticsForComponent_def same_answers_def)
next
  case (Some nodes)
  with assms have "getTemplate tc' c = Some nodes"
    by (simp add: same_answers_def)
  moreover have "handler_diagnostics I tc c = handler_diagnostics I tc' c"
    by (rule ext) (simp add: handler_diagnostics_def expression_visit_same_answers(1) [OF assms])
  ultimately show ?thesis
    using Some by (simp add: facade_events)
qed

theorem runs_agree_witness:
  "same_answers sample_checker other_checker app_component \<and>
   same_answers sample_checker sample_checker app_component \<and>
   getTemplate sample_checker other_component \<noteq> getTemplate other_checker other_component \<and>
   getDiagnosticsForComponent sample_imported sample_checker app_component =
   getDiagnosticsForComponent sample_imported other_checker app_component"
proof -
  have a: "same_answers sample_checker other_checker app_component"
    by (simp add: same_answers_def sample_checker_def other_checker_def app_component_def)
  have b: "same_answers sample_checker sample_checker app_component"
    by (simp add: same_answers_def)
  have d: "getTemplate sample_checker other_component \<noteq> getTemplate other_checker other_component"
    by (simp add: sample_checker_def other_checker_def other_component_def)
  from a b d runs_agree [OF a, of sample_imported] show ?thesis by blast
qed

subsection \<open>The deprecated-usage pass\<close>

text \<open>
  C9. For every rule object and every node, \<^verbatim>\<open>DeprecatedUsagesRule.checkNode\<close> throws
  \<^verbatim>\<open>Error('not implemented')\<close>; it never returns, so in particular it never returns an
  empty result.
\<close>

theorem checkNode_not_implemented:
  "checkNode rule node = Inl (Error ''not implemented'') \<and>
   (\<forall>result. checkNode rule node \<noteq> Inr result)"
  by (simp add: checkNode_def)

text \<open>
  C10. \<^verbatim>\<open>DeprecatedSemanticsVisitor.visitAll\<close> leaves the diagnostics as they are, and so
  does the whole visit of an expression by that visitor. Hence the visit of a bound
  attribute pushes nothing, the visit of a bound event pushes what the expression
  semantics visitor pushes for the handler, and the list the facade returns is, bound
  event after bound event, what the expression semantics visitor pushes; every diagnostic
  in it was made by Rule A or Rule B for a variable or a \<^verbatim>\<open>@let\<close> declaration.
\<close>

theorem deprecated_visitor_pushes_nothing:
  "DeprecatedSemanticsVisitor_visitAll asts ctx ds = ds \<and>
   DeprecatedSemanticsVisitor_visit a ctx ds = ds \<and>
   visitBoundAttribute attribute ds = ds \<and>
   visitBoundEvent I tc c event ds =
     ExpressionsSemanticsVisitor_visit I tc c (handler event) (TmplAstBoundEvent event) ds \<and>
   (\<forall>nodes. getTemplate tc c = Some nodes \<longrightarrow>
      getDiagnosticsForComponent I tc c =
        concat (map (handler_diagnostics I tc c) (boundEvents_list nodes))) \<and>
   (\<forall>d \<in> set (getDiagnosticsForComponent I tc c).
      \<exists>event target msg. msg \<in> set (rule_messages target) \<and>
        d = makeIllegalTemplateVarDiagnostic I tc c target event msg)"
proof (intro conjI allI impI ballI)
  show "DeprecatedSemanticsVisitor_visitAll asts ctx ds = ds"
    by (simp add: DeprecatedSemanticsVisitor_visitAll_def)
  show "DeprecatedSemanticsVisitor_visit a ctx ds = ds"
    by (rule deprecated_visit_pushes_nothing)
  show "visitBoundAttribute attribute ds = ds"
    by (rule bound_attribute_visit)
  show "visitBoundEvent I tc c event ds =
     ExpressionsSemanticsVisitor_visit I tc c (handler event) (TmplAstBoundEvent event) ds"
    by (simp add: visitBoundEvent_def deprecated_visit_pushes_nothing)
next
  fix nodes
  assume "getTemplate tc c = Some nodes"
  then show "getDiagnosticsForComponent I tc c =
      concat (map (handler_diagnostics I tc c) (boundEvents_list nodes))"
    by (rule facade_events)
next
  fix d
  assume "d \<in> set (getDiagnosticsForComponent I tc c)"
  from facade_origin [OF this]
  show "\<exists>event target msg. msg \<in> set (rule_messages target) \<and>
      d = makeIllegalTemplateVarDiagnostic I tc c target event msg"
    by blast
qed

text \<open>
  In the sample component the bound attribute \<open>[title]="item = 1"\<close> holds the same
  write as the click handler; only the handler gets a diagnostic.
\<close>

theorem deprecated_visitor_pushes_nothing_witness:
  "getTemplate sample_checker app_component = Some app_template \<and>
   boundEvents_list app_template = [click_event, two_way_event 20 ''total''] \<and>
   getDiagnosticsForComponent sample_imported sample_checker app_component =
     concat (map (handler_diagnostics sample_imported sample_checker app_component)
       (boundEvents_list app_template)) \<and>
   length (getDiagnosticsForComponent sample_imported sample_checker app_component) = 2"
proof -
  have t: "getTemplate sample_checker app_component = Some app_template"
    by (simp add: sample_checker_def app_component_def)
  have e: "boundEvents_list app_template = [click_event, two_way_event 20 ''total'']"
    by (simp add: app_template_def)
  have l: "length (getDiagnosticsForComponent sample_imported sample_checker app_component) = 2"
    by (simp add: sample_run)
  from t e l deprecated_visitor_pushes_nothing [where tc = sample_checker
      and c = app_component and I = sample_imported]
  show ?thesis by blast
qed

end
